theory Spec2Isabelle
  imports Main "HOL-Library.Sublist"
begin

section \<open>JavaScript values used by the table component\<close>

text \<open>
  Strings are modelled as HOL strings. The case mapping and the white space test are
  the ASCII part of JavaScript's \<^verbatim>\<open>toLowerCase\<close> and \<^verbatim>\<open>trim\<close>: the letters A to Z are
  mapped to a to z, every other character is left as it is, and the white space
  characters are tab, line feed, vertical tab, form feed, carriage return and space.
  Numbers are integers (\<^typ>\<open>int\<close>): page numbers, page sizes, counts and pixel widths.
\<close>

definition toLowerCaseChar :: "char \<Rightarrow> char" where
  "toLowerCaseChar c =
     (case map_of (zip ''ABCDEFGHIJKLMNOPQRSTUVWXYZ'' ''abcdefghijklmnopqrstuvwxyz'') c of
        None \<Rightarrow> c
      | Some l \<Rightarrow> l)"

definition toLowerCase :: "string \<Rightarrow> string" where
  "toLowerCase s = map toLowerCaseChar s"

definition isWhiteSpace :: "char \<Rightarrow> bool" where
  "isWhiteSpace c = (c \<in> set [CHR 0x09, CHR 0x0A, CHR 0x0B, CHR 0x0C, CHR 0x0D, CHR '' ''])"

definition trim :: "string \<Rightarrow> string" where
  "trim s = rev (dropWhile isWhiteSpace (rev (dropWhile isWhiteSpace s)))"

text \<open>\<^verbatim>\<open>s.includes(t)\<close>, \<^verbatim>\<open>s.startsWith(t)\<close> and \<^verbatim>\<open>s.endsWith(t)\<close>.\<close>

definition includesStr :: "string \<Rightarrow> string \<Rightarrow> bool" where
  "includesStr s searchString = sublist searchString s"

definition startsWith :: "string \<Rightarrow> string \<Rightarrow> bool" where
  "startsWith s searchString = prefix searchString s"

definition endsWith :: "string \<Rightarrow> string \<Rightarrow> bool" where
  "endsWith s searchString = suffix searchString s"

text \<open>
  \<^verbatim>\<open>xs.slice(start, end)\<close> on an array: a negative index counts from the end of the
  array, every index is clamped to the array, and the result is empty when the end is
  not after the start.
\<close>

definition slice :: "'a list \<Rightarrow> int \<Rightarrow> int \<Rightarrow> 'a list" where
  "slice xs start fin =
     (let len = int (length xs);
          k = (if start < 0 then max (len + start) 0 else min start len);
          final = (if fin < 0 then max (len + fin) 0 else min fin len)
      in take (nat (final - k)) (drop (nat k) xs))"

text \<open>
  A \<^verbatim>\<open>Map\<close> is an association list with distinct keys in insertion order:
  \<^verbatim>\<open>set\<close> replaces the value of a key that is present where it stands and appends a
  new key, \<^verbatim>\<open>delete\<close> removes the entry of the key.
\<close>

fun mapSet :: "('k \<times> 'v) list \<Rightarrow> 'k \<Rightarrow> 'v \<Rightarrow> ('k \<times> 'v) list" where
  "mapSet [] k v = [(k, v)]"
| "mapSet ((k', v') # m) k v = (if k' = k then (k, v) # m else (k', v') # mapSet m k v)"

definition mapGet :: "('k \<times> 'v) list \<Rightarrow> 'k \<Rightarrow> 'v option" where
  "mapGet m k = map_of m k"

definition mapDelete :: "('k \<times> 'v) list \<Rightarrow> 'k \<Rightarrow> ('k \<times> 'v) list" where
  "mapDelete m k = filter (\<lambda>e. fst e \<noteq> k) m"


section \<open>The data of the grid\<close>

text \<open>
  An entity record of the host is read through \<^verbatim>\<open>getFormattedValue(columnName)\<close> only;
  \<open>None\<close> is a missing (undefined or null) cell value. The record store
  \<^verbatim>\<open>records\<close> is an object of the host keyed by record id; \<open>None\<close> is an id
  without a record, for which \<^verbatim>\<open>records[id]\<close> is undefined.
\<close>

type_synonym EntityRecord = "string \<Rightarrow> string option"

type_synonym RecordStore = "string \<Rightarrow> EntityRecord option"

record ColumnFilter =
  columnName :: string
  operator :: string
  "value" :: string

type_synonym ColumnFilters = "(string \<times> ColumnFilter) list"


section \<open>The displayed record ids (CustomTable, displayRecordIds)\<close>

text \<open>\<^verbatim>\<open>String(value || '')\<close>: a missing or empty cell value is the empty string.\<close>

definition stringOrEmpty :: "string option \<Rightarrow> string" where
  "stringOrEmpty v = (case v of None \<Rightarrow> [] | Some s \<Rightarrow> s)"

text \<open>The body of the loop over the active filters: the \<^verbatim>\<open>switch\<close> on the operator.\<close>

definition filterMatches :: "EntityRecord \<Rightarrow> string \<Rightarrow> ColumnFilter \<Rightarrow> bool" where
  "filterMatches record colName f =
     (let v = record colName;
          filterValue = toLowerCase (value f);
          recordValue = toLowerCase (stringOrEmpty v)
      in if operator f = ''Contains'' then includesStr recordValue filterValue
         else if operator f = ''Equals'' then recordValue = filterValue
         else if operator f = ''Starts with'' then startsWith recordValue filterValue
         else if operator f = ''Ends with'' then endsWith recordValue filterValue
         else if operator f = ''Does not contain'' then \<not> includesStr recordValue filterValue
         else includesStr recordValue filterValue)"

text \<open>
  The loop \<^verbatim>\<open>for (const [columnName, filter] of columnFilters.entries())\<close>: it returns
  false at the first filter that does not match, and true after the last one.
\<close>

fun checkFilters :: "EntityRecord \<Rightarrow> ColumnFilters \<Rightarrow> bool" where
  "checkFilters record [] = True"
| "checkFilters record ((colName, f) # rest) =
     (if \<not> filterMatches record colName f then False else checkFilters record rest)"

text \<open>The callback given to \<^verbatim>\<open>sortedRecordIds.filter\<close>.\<close>

definition filterPredicate :: "RecordStore \<Rightarrow> ColumnFilters \<Rightarrow> string \<Rightarrow> bool" where
  "filterPredicate records columnFilters recordId =
     (case records recordId of
        None \<Rightarrow> False
      | Some record \<Rightarrow> checkFilters record columnFilters)"

definition displayRecordIds ::
  "RecordStore \<Rightarrow> string list \<Rightarrow> ColumnFilters \<Rightarrow> int \<Rightarrow> int \<Rightarrow> string list" where
  "displayRecordIds records sortedRecordIds columnFilters currentPage recordsPerPage =
     (let filteredIds =
            (if length columnFilters > 0
             then filter (filterPredicate records columnFilters) sortedRecordIds
             else sortedRecordIds);
          startIndex = (currentPage - 1) * recordsPerPage;
          endIndex = startIndex + recordsPerPage
      in slice filteredIds startIndex endIndex)"


section \<open>The comparisons of the specification\<close>







section \<open>The local state of the table component (CustomTable)\<close>

text \<open>
  The hooks of the component: the filter mapping, the open filter popup with its pending
  operator and value, the column widths and the resize session.
\<close>

record CustomTableState =
  columnFilters :: ColumnFilters
  openFilterColumn :: "string option"
  tempFilterOperator :: string
  tempFilterValue :: string
  columnWidths :: "(string \<times> int) list"
  resizingColumn :: "string option"
  resizeStartX :: int
  resizeStartWidth :: int

text \<open>The values given to \<^verbatim>\<open>useState\<close>.\<close>

definition initialTableState :: CustomTableState where
  "initialTableState =
     \<lparr>columnFilters = [], openFilterColumn = None, tempFilterOperator = ''Contains'',
      tempFilterValue = [], columnWidths = [], resizingColumn = None,
      resizeStartX = 0, resizeStartWidth = 0\<rparr>"

text \<open>
  A value of type \<^verbatim>\<open>string | null\<close> in a condition: null and the empty string are
  falsy.
\<close>

definition truthy :: "string option \<Rightarrow> bool" where
  "truthy v = (case v of None \<Rightarrow> False | Some s \<Rightarrow> s \<noteq> [])"

definition handleOpenFilter :: "string \<Rightarrow> CustomTableState \<Rightarrow> CustomTableState" where
  "handleOpenFilter colName st =
     (let existingFilter = mapGet (columnFilters st) colName
      in st\<lparr>tempFilterOperator :=
               (case existingFilter of
                  None \<Rightarrow> ''Contains''
                | Some f \<Rightarrow> if operator f = [] then ''Contains'' else operator f),
            tempFilterValue := (case existingFilter of None \<Rightarrow> [] | Some f \<Rightarrow> value f),
            openFilterColumn := Some colName\<rparr>)"

definition handleApplyFilter :: "CustomTableState \<Rightarrow> CustomTableState" where
  "handleApplyFilter st =
     (let st1 =
            (if truthy (openFilterColumn st) \<and> trim (tempFilterValue st) \<noteq> []
             then st\<lparr>columnFilters :=
                      mapSet (columnFilters st) (the (openFilterColumn st))
                        \<lparr>columnName = the (openFilterColumn st),
                         operator = tempFilterOperator st,
                         value = trim (tempFilterValue st)\<rparr>\<rparr>
             else st)
      in st1\<lparr>openFilterColumn := None\<rparr>)"

definition handleClearFilter :: "CustomTableState \<Rightarrow> CustomTableState" where
  "handleClearFilter st =
     (let st1 =
            (if truthy (openFilterColumn st)
             then st\<lparr>columnFilters := mapDelete (columnFilters st) (the (openFilterColumn st))\<rparr>
             else st)
      in st1\<lparr>tempFilterValue := [], openFilterColumn := None\<rparr>)"

text \<open>\<^verbatim>\<open>columnWidths.get(columnName) || 150\<close>: a missing width and the width 0 are 150.\<close>

definition widthOrDefault :: "(string \<times> int) list \<Rightarrow> string \<Rightarrow> int" where
  "widthOrDefault widths colName =
     (case mapGet widths colName of None \<Rightarrow> 150 | Some w \<Rightarrow> if w = 0 then 150 else w)"

definition handleResizeStart :: "string \<Rightarrow> int \<Rightarrow> CustomTableState \<Rightarrow> CustomTableState" where
  "handleResizeStart colName startX st =
     (let currentWidth = widthOrDefault (columnWidths st) colName
      in st\<lparr>resizingColumn := Some colName, resizeStartX := startX,
            resizeStartWidth := currentWidth\<rparr>)"

definition handleResizeMove :: "int \<Rightarrow> CustomTableState \<Rightarrow> CustomTableState" where
  "handleResizeMove clientX st =
     (if truthy (resizingColumn st)
      then (let deltaX = clientX - resizeStartX st;
                newWidth = max 80 (resizeStartWidth st + deltaX)
            in st\<lparr>columnWidths := mapSet (columnWidths st) (the (resizingColumn st)) newWidth\<rparr>)
      else st)"

definition handleResizeEnd :: "CustomTableState \<Rightarrow> CustomTableState" where
  "handleResizeEnd st = (if truthy (resizingColumn st) then st\<lparr>resizingColumn := None\<rparr> else st)"

text \<open>
  The body of the effect that depends on \<^verbatim>\<open>isTableRefresh\<close>: when the property is true
  it sets every hook back to its first value.
\<close>

definition refreshEffect :: "bool \<Rightarrow> CustomTableState \<Rightarrow> CustomTableState" where
  "refreshEffect isRefresh st =
     (if isRefresh
      then st\<lparr>columnFilters := [], openFilterColumn := None, tempFilterOperator := ''Contains'',
              tempFilterValue := [], columnWidths := [], resizingColumn := None,
              resizeStartX := 0, resizeStartWidth := 0\<rparr>
      else st)"

text \<open>
  The events of the component that change its hooks: the handlers above, the change of the
  operator and of the value in the popup, the closing of the popup, and the refresh effect.
\<close>

datatype TableEvent =
    OpenFilter string
  | CloseFilter
  | SetOperator "string option"
  | SetValue string
  | ApplyFilter
  | ClearFilter
  | ResizeStart string int
  | ResizeMove int
  | ResizeEnd
  | RefreshEffect bool

fun tableStep :: "TableEvent \<Rightarrow> CustomTableState \<Rightarrow> CustomTableState" where
  "tableStep (OpenFilter c) st = handleOpenFilter c st"
| "tableStep CloseFilter st = st\<lparr>openFilterColumn := None\<rparr>"
| "tableStep (SetOperator v) st =
     st\<lparr>tempFilterOperator := (if truthy v then the v else ''Contains'')\<rparr>"
| "tableStep (SetValue v) st = st\<lparr>tempFilterValue := v\<rparr>"
| "tableStep ApplyFilter st = handleApplyFilter st"
| "tableStep ClearFilter st = handleClearFilter st"
| "tableStep (ResizeStart c x) st = handleResizeStart c x st"
| "tableStep (ResizeMove x) st = handleResizeMove x st"
| "tableStep ResizeEnd st = handleResizeEnd st"
| "tableStep (RefreshEffect b) st = refreshEffect b st"

text \<open>The states of the hooks after a sequence of events, from the first values.\<close>

definition tableRun :: "TableEvent list \<Rightarrow> CustomTableState" where
  "tableRun events = foldl (\<lambda>st e. tableStep e st) initialTableState events"



section \<open>The properties of the component and its render passes\<close>

datatype SortDirection = SortNone | Ascending | Descending

text \<open>
  \<^verbatim>\<open>0 | 1 | -1\<close> in the source: 0 is \<open>SortNone\<close>, 1 is \<open>Ascending\<close>, -1 is \<open>Descending\<close>.
  The properties below are the ones that the modelled parts of the component read.
\<close>

record GridProps =
  records :: RecordStore
  sortedRecordIds :: "string list"
  currentPage :: int
  recordsPerPage :: int
  sortColumn :: "string option"
  sortDirection :: SortDirection
  isTableRefresh :: bool

text \<open>
  What a render pass shows: the rows of \<^verbatim>\<open>displayRecordIds\<close>, the header marked as sorted
  with its arrow, the headers marked as filtered and the page number.
\<close>

record Frame =
  rowIds :: "string list"
  sortedHeader :: "string option"
  sortArrow :: SortDirection
  filteredHeaders :: "string list"
  pageShown :: int

definition renderFrame :: "GridProps \<Rightarrow> CustomTableState \<Rightarrow> Frame" where
  "renderFrame props st =
     \<lparr>rowIds = displayRecordIds (records props) (sortedRecordIds props) (columnFilters st)
                 (currentPage props) (recordsPerPage props),
      sortedHeader = sortColumn props,
      sortArrow = sortDirection props,
      filteredHeaders = map fst (columnFilters st),
      pageShown = currentPage props\<rparr>"

text \<open>
  A render of the component with new properties. The body of the function component is
  evaluated on the properties and on the hooks as they are; an effect runs after that pass,
  and only when its dependency differs from the one of the pass before (\<open>None\<close>: there
  was no pass before). The refresh effect that finds the property true sets the hooks, and
  the component is rendered again with the same properties; in that second pass the
  dependency has not changed.
\<close>

definition renderPasses ::
  "bool option \<Rightarrow> GridProps \<Rightarrow> CustomTableState \<Rightarrow> Frame list \<times> CustomTableState" where
  "renderPasses previousDependency props st =
     (let firstPass = renderFrame props st;
          effectRuns = (previousDependency \<noteq> Some (isTableRefresh props))
      in if effectRuns \<and> isTableRefresh props
         then (let st' = refreshEffect (isTableRefresh props) st
               in ([firstPass, renderFrame props st'], st'))
         else ([firstPass], st))"


section \<open>The status utilities (statusUtils)\<close>

text \<open>
  The icon of a status style is a string of one character outside ASCII; it is kept as
  the list of its Unicode code points.
\<close>

record StatusStyle =
  icon :: "nat list"

type_synonym StatusCategory = "(string \<times> StatusStyle) list"

type_synonym StatusDefinitions = "(string \<times> StatusCategory) list"

definition STATUS_DEFINITIONS :: StatusDefinitions where
  "STATUS_DEFINITIONS =
     [(''generalStatus'',
        [(''Active'', \<lparr>icon = [0x2713]\<rparr>),
         (''Inactive'', \<lparr>icon = [0x25CB]\<rparr>),
         (''Enabled'', \<lparr>icon = [0x2713]\<rparr>),
         (''Disabled'', \<lparr>icon = [0x2717]\<rparr>),
         (''Online'', \<lparr>icon = [0x25CF]\<rparr>),
         (''Offline'', \<lparr>icon = [0x25CB]\<rparr>)]),
      (''operationStatus'',
        [(''Success'', \<lparr>icon = [0x2713]\<rparr>),
         (''Failed'', \<lparr>icon = [0x2717]\<rparr>),
         (''Error'', \<lparr>icon = [0x26A0]\<rparr>),
         (''Warning'', \<lparr>icon = [0x26A0]\<rparr>),
         (''Info'', \<lparr>icon = [0x2139]\<rparr>)]),
      (''progressStatus'',
        [(''Not Started'', \<lparr>icon = [0x25CB]\<rparr>),
         (''In Progress'', \<lparr>icon = [0x27F3]\<rparr>),
         (''Pending'', \<lparr>icon = [0x23F8]\<rparr>),
         (''Completed'', \<lparr>icon = [0x2713]\<rparr>),
         (''On Hold'', \<lparr>icon = [0x23F8]\<rparr>),
         (''Cancelled'', \<lparr>icon = [0x2717]\<rparr>),
         (''Paused'', \<lparr>icon = [0x23F8]\<rparr>)]),
      (''approvalStatus'',
        [(''Approved'', \<lparr>icon = [0x2713]\<rparr>),
         (''Rejected'', \<lparr>icon = [0x2717]\<rparr>),
         (''Under Review'', \<lparr>icon = [0x1F441]\<rparr>),
         (''Draft'', \<lparr>icon = [0x1F4DD]\<rparr>),
         (''Submitted'', \<lparr>icon = [0x1F4E4]\<rparr>),
         (''Pending Approval'', \<lparr>icon = [0x23F3]\<rparr>)]),
      (''priorityStatus'',
        [(''Critical'', \<lparr>icon = [0x1F534]\<rparr>),
         (''High'', \<lparr>icon = [0x2B06]\<rparr>),
         (''Medium'', \<lparr>icon = [0x27A1]\<rparr>),
         (''Low'', \<lparr>icon = [0x2B07]\<rparr>),
         (''Urgent'', \<lparr>icon = [0x26A1]\<rparr>)]),
      (''paymentStatus'',
        [(''Paid'', \<lparr>icon = [0x2713]\<rparr>),
         (''Unpaid'', \<lparr>icon = [0x2717]\<rparr>),
         (''Pending'', \<lparr>icon = [0x23F3]\<rparr>),
         (''Overdue'', \<lparr>icon = [0x26A0]\<rparr>),
         (''Refunded'', \<lparr>icon = [0x21A9]\<rparr>),
         (''Partial'', \<lparr>icon = [0x25D0]\<rparr>)]),
      (''orderStatus'',
        [(''New'', \<lparr>icon = [0x1F195]\<rparr>),
         (''Processing'', \<lparr>icon = [0x2699]\<rparr>),
         (''Shipped'', \<lparr>icon = [0x1F4E6]\<rparr>),
         (''Delivered'', \<lparr>icon = [0x2713]\<rparr>),
         (''Returned'', \<lparr>icon = [0x21A9]\<rparr>),
         (''Cancelled'', \<lparr>icon = [0x2717]\<rparr>)]),
      (''membershipStatus'',
        [(''Trial'', \<lparr>icon = [0x1F513]\<rparr>),
         (''Active'', \<lparr>icon = [0x2713]\<rparr>),
         (''Expired'', \<lparr>icon = [0x2717]\<rparr>),
         (''Suspended'', \<lparr>icon = [0x23F8]\<rparr>),
         (''Cancelled'', \<lparr>icon = [0x25CB]\<rparr>)])]"

text \<open>
  \<^verbatim>\<open>category[key]\<close> reads a property of an object literal: a key of the literal gives
  its style, and a name that every object inherits from \<^verbatim>\<open>Object.prototype\<close> gives the
  inherited member, which is a function or an object and so is truthy.
\<close>

definition objectPrototypeKeys :: "string list" where
  "objectPrototypeKeys =
     [''constructor'', ''__defineGetter__'', ''__defineSetter__'', ''hasOwnProperty'',
      ''__lookupGetter__'', ''__lookupSetter__'', ''isPrototypeOf'',
      ''propertyIsEnumerable'', ''toString'', ''valueOf'', ''__proto__'',
      ''toLocaleString'']"

datatype PropertyValue = Own StatusStyle | InheritedMember string | Undefined

definition getProperty :: "StatusCategory \<Rightarrow> string \<Rightarrow> PropertyValue" where
  "getProperty category key =
     (case map_of category key of
        Some style \<Rightarrow> Own style
      | None \<Rightarrow> if key \<in> set objectPrototypeKeys then InheritedMember key else Undefined)"

text \<open>
  What \<^verbatim>\<open>getStatusStyle\<close> returns: a style of the table, null, or a member of
  \<^verbatim>\<open>Object.prototype\<close> that the property read found.
\<close>

datatype StyleResult = Style StatusStyle | Inherited string | Null

definition resultOf :: "PropertyValue \<Rightarrow> StyleResult" where
  "resultOf v = (case v of Own style \<Rightarrow> Style style | InheritedMember k \<Rightarrow> Inherited k | Undefined \<Rightarrow> Null)"

text \<open>The loop over \<^verbatim>\<open>Object.values(STATUS_DEFINITIONS)\<close>.\<close>

fun searchCategories :: "string \<Rightarrow> StatusCategory list \<Rightarrow> StyleResult" where
  "searchCategories normalizedValue [] = Null"
| "searchCategories normalizedValue (category # rest) =
     (if getProperty category normalizedValue \<noteq> Undefined
      then resultOf (getProperty category normalizedValue)
      else (case find (\<lambda>key. toLowerCase key = toLowerCase normalizedValue) (map fst category) of
              Some statusKey \<Rightarrow>
                (if statusKey \<noteq> [] then resultOf (getProperty category statusKey)
                 else searchCategories normalizedValue rest)
            | None \<Rightarrow> searchCategories normalizedValue rest))"

definition getStatusStyle :: "string \<Rightarrow> StyleResult" where
  "getStatusStyle statusValue =
     (if statusValue = [] then Null
      else (let normalizedValue = trim statusValue
            in searchCategories normalizedValue (map snd STATUS_DEFINITIONS)))"





section \<open>The host's data set\<close>

text \<open>
  The data set \<^verbatim>\<open>context.parameters.records\<close> belongs to the host. Its state is a type
  parameter \<open>'d\<close>, and the members that the control uses are a parameter of every
  function below: what the control reads from the data set, and the state of the data set
  after a call of one of its methods or an assignment to \<^verbatim>\<open>dataset.sorting\<close>.
\<close>

record Column =
  name :: string
  displayName :: string

record 'd DataSet =
  paging_hasNextPage :: "'d \<Rightarrow> bool"
  paging_totalResultCount :: "'d \<Rightarrow> int"
  paging_loadNextPage :: "'d \<Rightarrow> 'd"
  paging_loadPreviousPage :: "'d \<Rightarrow> 'd"
  paging_reset :: "'d \<Rightarrow> 'd"
  paging_setPageSize :: "int \<Rightarrow> 'd \<Rightarrow> 'd"
  dataset_columns :: "'d \<Rightarrow> Column list"
  dataset_records :: "'d \<Rightarrow> RecordStore"
  dataset_sortedRecordIds :: "'d \<Rightarrow> string list"
  dataset_setSorting :: "(string \<times> SortDirection) list \<Rightarrow> 'd \<Rightarrow> 'd"
  dataset_refresh :: "'d \<Rightarrow> 'd"


section \<open>The control (TableGrid)\<close>

text \<open>
  An object \<^verbatim>\<open>{ recordId: string; [key: string]: unknown }\<close> is the list of its
  properties in the order in which they were set, the first one being \<^verbatim>\<open>recordId\<close>.
\<close>

type_synonym RecordObject = "(string \<times> string option) list"

record TableGrid =
  sortedRecordsIds :: "string list"
  records :: RecordStore
  currentPage :: int
  totalRecordCount :: int
  currentSortColumn :: "string option"
  currentSortDirection :: SortDirection
  selectedRecordIds :: "string list"
  selectedRecordObjects :: "RecordObject list"
  recordsToJson :: "RecordObject list option"
  previousRefreshValue :: bool
  selectedLinkRecords :: "RecordObject list"

text \<open>The field \<^verbatim>\<open>pageSize = 10\<close> is never assigned again.\<close>

definition pageSize :: int where
  "pageSize = 10"

text \<open>The initialisers of the fields.\<close>

definition initialGrid :: TableGrid where
  "initialGrid =
     \<lparr>sortedRecordsIds = [], records = (\<lambda>recordId. None), currentPage = 1,
      totalRecordCount = 0, currentSortColumn = None, currentSortDirection = Ascending,
      selectedRecordIds = [], selectedRecordObjects = [], recordsToJson = None,
      previousRefreshValue = False, selectedLinkRecords = []\<rparr>"

text \<open>\<^verbatim>\<open>Math.ceil(a / b)\<close> for integers \<open>a\<close> and \<open>b\<close>, \<open>b\<close> not zero.\<close>

definition ceilDiv :: "int \<Rightarrow> int \<Rightarrow> int" where
  "ceilDiv a b = - ((- a) div b)"

definition totalPages :: "TableGrid \<Rightarrow> int" where
  "totalPages g = (if totalRecordCount g > 0 then ceilDiv (totalRecordCount g) pageSize else 1)"

datatype Direction = Next | Previous | First | Last

text \<open>
  \<^verbatim>\<open>onNavigate\<close>. The methods of the data set are parameters that return a data set:
  an exception of the host is outside the model, and the \<^verbatim>\<open>catch\<close> block of the
  source, which only logs, has no branch here. The loop of the direction \<^verbatim>\<open>"last"\<close>:
  \<^verbatim>\<open>while (paging.hasNextPage && pagesLoaded < 100) { paging.loadNextPage(); pagesLoaded++; }\<close>
\<close>

function loadPages :: "'d DataSet \<Rightarrow> 'd \<Rightarrow> nat \<Rightarrow> 'd" where
  "loadPages api d pagesLoaded =
     (if paging_hasNextPage api d \<and> pagesLoaded < 100
      then loadPages api (paging_loadNextPage api d) (pagesLoaded + 1)
      else d)"
  by pat_completeness auto
termination
  by (relation "measure (\<lambda>(api, d, pagesLoaded). 100 - pagesLoaded)") auto

definition onNavigate ::
  "'d DataSet \<Rightarrow> Direction \<Rightarrow> TableGrid \<times> 'd \<Rightarrow> TableGrid \<times> 'd" where
  "onNavigate api direction s =
     (let g = fst s; d = snd s;
          hasNext = paging_hasNextPage api d;
          hasPrevious = (currentPage g > 1)
      in case direction of
           Next \<Rightarrow>
             if hasNext
             then (g\<lparr>currentPage := currentPage g + 1\<rparr>, paging_loadNextPage api d)
             else (g, d)
         | Previous \<Rightarrow>
             if hasPrevious
             then (g\<lparr>currentPage := currentPage g - 1\<rparr>, paging_loadPreviousPage api d)
             else (g, d)
         | First \<Rightarrow>
             if currentPage g \<noteq> 1
             then (g\<lparr>currentPage := 1\<rparr>, paging_reset api d)
             else (g, d)
         | Last \<Rightarrow>
             (let lastPage = totalPages g;
                  d' = loadPages api d 0
              in (g\<lparr>currentPage := lastPage\<rparr>, d')))"

definition onSort :: "'d DataSet \<Rightarrow> string \<Rightarrow> TableGrid \<times> 'd \<Rightarrow> TableGrid \<times> 'd" where
  "onSort api colName s =
     (let g = fst s; d = snd s;
          (newSortDirection, g1) =
            (if currentSortColumn g = Some colName
             then (if currentSortDirection g = Ascending then (Descending, g)
                   else if currentSortDirection g = Descending
                        then (SortNone, g\<lparr>currentSortColumn := None\<rparr>)
                        else (Ascending, g))
             else (Ascending, g\<lparr>currentSortColumn := Some colName\<rparr>));
          g2 = g1\<lparr>currentSortDirection := newSortDirection\<rparr>
      in case find (\<lambda>col. name col = colName) (dataset_columns api d) of
           None \<Rightarrow> (g2, d)
         | Some column \<Rightarrow>
             (let d1 = (if newSortDirection = SortNone
                        then dataset_setSorting api [] d
                        else dataset_setSorting api [(colName, newSortDirection)] d)
              in (g2\<lparr>currentPage := 1\<rparr>, dataset_refresh api (paging_reset api d1))))"

text \<open>\<^verbatim>\<open>rec.recordId\<close> of a record object.\<close>

definition recordIdOf :: "RecordObject \<Rightarrow> string option" where
  "recordIdOf obj = (case mapGet obj ''recordId'' of None \<Rightarrow> None | Some v \<Rightarrow> v)"

text \<open>
  The loop \<^verbatim>\<open>selectedIds.forEach\<close> of \<^verbatim>\<open>onSelectionChange\<close>: the objects that
  \<^verbatim>\<open>recordsToJson.find\<close> finds, in the order of the ids.
\<close>

fun findSelected :: "RecordObject list \<Rightarrow> string list \<Rightarrow> RecordObject list" where
  "findSelected json [] = []"
| "findSelected json (recordId # ids) =
     (case find (\<lambda>obj. recordIdOf obj = Some recordId) json of
        Some selectedRecord \<Rightarrow> selectedRecord # findSelected json ids
      | None \<Rightarrow> findSelected json ids)"

definition onSelectionChange :: "string list \<Rightarrow> TableGrid \<Rightarrow> TableGrid" where
  "onSelectionChange selectedIds g =
     (let g1 = g\<lparr>selectedRecordIds := selectedIds, selectedRecordObjects := []\<rparr>
      in if length selectedIds > 0 \<and> recordsToJson g1 \<noteq> None
         then g1\<lparr>selectedRecordObjects := findSelected (the (recordsToJson g1)) selectedIds\<rparr>
         else g1)"

definition onLinkClick :: "string \<Rightarrow> TableGrid \<Rightarrow> TableGrid" where
  "onLinkClick recordId g =
     (case recordsToJson g of
        None \<Rightarrow> g
      | Some json \<Rightarrow>
          (case find (\<lambda>obj. recordIdOf obj = Some recordId) json of
             Some clickedRecord \<Rightarrow> g\<lparr>selectedLinkRecords := [clickedRecord]\<rparr>
           | None \<Rightarrow> g))"

text \<open>
  \<^verbatim>\<open>convertRecordsToJson\<close>: one object for each id, with a property for each column. An id
  without a record makes \<^verbatim>\<open>record.getFormattedValue\<close> throw a TypeError as soon as there
  is a column; the result is then \<open>None\<close> and \<^verbatim>\<open>recordsToJson\<close> is not assigned.
\<close>

definition recordToObject :: "Column list \<Rightarrow> RecordStore \<Rightarrow> string \<Rightarrow> RecordObject option" where
  "recordToObject cols store recordId =
     (case store recordId of
        None \<Rightarrow> if cols = [] then Some [(''recordId'', Some recordId)] else None
      | Some record \<Rightarrow>
          Some (foldl (\<lambda>recordData column. mapSet recordData (name column) (record (name column)))
                  [(''recordId'', Some recordId)] cols))"

definition convertRecordsToJson :: "Column list \<Rightarrow> TableGrid \<Rightarrow> RecordObject list option" where
  "convertRecordsToJson cols g =
     those (map (recordToObject cols (records g)) (sortedRecordsIds g))"

text \<open>
  The memo \<^verbatim>\<open>recordsJson\<close> of the component has the same body on the properties of the
  component. It is evaluated in a render pass before \<^verbatim>\<open>displayRecordIds\<close>.
\<close>

definition recordsJson :: "Column list \<Rightarrow> RecordStore \<Rightarrow> string list \<Rightarrow> RecordObject list option" where
  "recordsJson cols store ids = those (map (recordToObject cols store) ids)"

text \<open>
  The properties given to the component by \<^verbatim>\<open>updateView\<close>, as far as the component is
  modelled.
\<close>

definition gridProps :: "bool \<Rightarrow> TableGrid \<Rightarrow> GridProps" where
  "gridProps isRefresh g =
     \<lparr>GridProps.records = records g,
      sortedRecordIds = sortedRecordsIds g,
      GridProps.currentPage = currentPage g,
      recordsPerPage = pageSize,
      sortColumn = currentSortColumn g,
      sortDirection = currentSortDirection g,
      isTableRefresh = isRefresh\<rparr>"

text \<open>
  \<^verbatim>\<open>updateView\<close>, in the order of its blocks. The first block, on the rising edge of
  the refresh signal (\<^verbatim>\<open>isTableRefresh && !this.previousRefreshValue\<close>), resets the
  selections, the page and the sort state, and asks the data set to reset its paging, to
  clear its sorting and to refresh.
\<close>

definition resetOnRefresh :: "'d DataSet \<Rightarrow> bool \<Rightarrow> TableGrid \<times> 'd \<Rightarrow> TableGrid \<times> 'd" where
  "resetOnRefresh api isRefresh s =
     (if isRefresh \<and> \<not> previousRefreshValue (fst s)
      then ((fst s)\<lparr>selectedRecordIds := [], selectedRecordObjects := [],
                    selectedLinkRecords := [], currentPage := 1,
                    currentSortColumn := None, currentSortDirection := Ascending\<rparr>,
            dataset_refresh api (dataset_setSorting api [] (paging_reset api (snd s))))
      else s)"

text \<open>
  The block that stores the records, the ordered ids and the total count: the count of
  the paging when it is not negative, and an estimate from the page and the loaded ids
  otherwise.
\<close>

definition storeDataSet :: "'d DataSet \<Rightarrow> 'd \<Rightarrow> TableGrid \<Rightarrow> TableGrid" where
  "storeDataSet api d g =
     (let g3 = g\<lparr>records := dataset_records api d,
                 sortedRecordsIds := dataset_sortedRecordIds api d\<rparr>;
          pagingTotalCount = paging_totalResultCount api d
      in g3\<lparr>totalRecordCount :=
              (if pagingTotalCount \<ge> 0 then pagingTotalCount
               else if paging_hasNextPage api d
                    then currentPage g3 * pageSize + pageSize
                    else (currentPage g3 - 1) * pageSize + int (length (sortedRecordsIds g3)))\<rparr>)"

text \<open>
  The last block converts the records and renders the component. The result is the
  control, the data set and the properties that are rendered; the properties are \<open>None\<close>
  when \<^verbatim>\<open>convertRecordsToJson\<close> throws, and the fields assigned before are then kept as
  they were assigned.
\<close>

definition renderGrid ::
  "'d DataSet \<Rightarrow> bool \<Rightarrow> 'd \<Rightarrow> TableGrid \<Rightarrow> TableGrid \<times> 'd \<times> GridProps option" where
  "renderGrid api isRefresh d g =
     (case convertRecordsToJson (dataset_columns api d) g of
        None \<Rightarrow> (g, d, None)
      | Some jsonData \<Rightarrow>
          (let g5 = g\<lparr>recordsToJson := Some jsonData\<rparr>
           in (g5, d, Some (gridProps isRefresh g5))))"

text \<open>
  The first argument of \<^verbatim>\<open>updateView\<close> after the data set's members is
  \<^verbatim>\<open>context.parameters.isTableRefresh?.raw\<close>, \<open>None\<close> when it is undefined or null.
\<close>

definition updateView ::
  "'d DataSet \<Rightarrow> bool option \<Rightarrow> TableGrid \<times> 'd \<Rightarrow> TableGrid \<times> 'd \<times> GridProps option" where
  "updateView api raw s =
     (let isRefresh = (raw = Some True);
          s1 = resetOnRefresh api isRefresh s;
          g2 = (fst s1)\<lparr>previousRefreshValue := isRefresh\<rparr>;
          d2 = paging_setPageSize api 10 (snd s1);
          g4 = storeDataSet api d2 g2
      in renderGrid api isRefresh d2 g4)"

text \<open>
  \<^verbatim>\<open>JSON.stringify\<close> of an array of objects: the texts of the elements between brackets,
  separated by commas. The text of one object is a parameter.
\<close>

fun joinWith :: "string \<Rightarrow> string list \<Rightarrow> string" where
  "joinWith sep [] = []"
| "joinWith sep [x] = x"
| "joinWith sep (x # y # rest) = x @ sep @ joinWith sep (y # rest)"

definition stringifyArray :: "('a \<Rightarrow> string) \<Rightarrow> 'a list \<Rightarrow> string" where
  "stringifyArray stringifyElement xs = ''['' @ joinWith '','' (map stringifyElement xs) @ '']''"

record IOutputs =
  SelectedRecordIds :: string
  SelectedLinkRecords :: string

definition getOutputs :: "(RecordObject \<Rightarrow> string) \<Rightarrow> TableGrid \<Rightarrow> IOutputs" where
  "getOutputs stringifyObject g =
     (let selectedRecordObjectsJson =
            (if length (selectedRecordObjects g) > 0
             then stringifyArray stringifyObject (selectedRecordObjects g)
             else []);
          selectedLinkRecordsJson =
            (if length (selectedLinkRecords g) > 0
             then stringifyArray stringifyObject (selectedLinkRecords g)
             else [])
      in \<lparr>SelectedRecordIds = selectedRecordObjectsJson,
          SelectedLinkRecords = selectedLinkRecordsJson\<rparr>)"

text \<open>
  The calls that the host and the component make on the control, and the controls that a
  sequence of calls reaches from the initialisers, whatever the data set is at each call.
\<close>

datatype 'd GridEvent =
    Navigate Direction 'd
  | Sort string 'd
  | SelectionChange "string list"
  | LinkClick string
  | UpdateView "bool option" 'd

fun gridStep :: "'d DataSet \<Rightarrow> 'd GridEvent \<Rightarrow> TableGrid \<Rightarrow> TableGrid" where
  "gridStep api (Navigate direction d) g = fst (onNavigate api direction (g, d))"
| "gridStep api (Sort colName d) g = fst (onSort api colName (g, d))"
| "gridStep api (SelectionChange ids) g = onSelectionChange ids g"
| "gridStep api (LinkClick recordId) g = onLinkClick recordId g"
| "gridStep api (UpdateView raw d) g = fst (updateView api raw (g, d))"

definition gridRun :: "'d DataSet \<Rightarrow> 'd GridEvent list \<Rightarrow> TableGrid" where
  "gridRun api events = foldl (\<lambda>g e. gridStep api e g) initialGrid events"

text \<open>The sort state of the control: the sorted column and the direction.\<close>

definition sortState :: "TableGrid \<Rightarrow> string option \<times> SortDirection" where
  "sortState g = (currentSortColumn g, currentSortDirection g)"


section \<open>Data for the examples\<close>

text \<open>
  A data set for the examples. Its methods record the request of the control; the host
  answers a request with a later call of \<^verbatim>\<open>updateView\<close> on the data set that it has
  loaded by then.
\<close>

record Host =
  hostHasNextPage :: bool
  hostTotalResultCount :: int
  hostColumns :: "Column list"
  hostRecords :: RecordStore
  hostSortedRecordIds :: "string list"
  hostSorting :: "(string \<times> SortDirection) list"
  hostRequests :: "string list"

definition request :: "string \<Rightarrow> Host \<Rightarrow> Host" where
  "request r h = h\<lparr>hostRequests := hostRequests h @ [r]\<rparr>"

definition hostApi :: "Host DataSet" where
  "hostApi =
     \<lparr>paging_hasNextPage = hostHasNextPage,
      paging_totalResultCount = hostTotalResultCount,
      paging_loadNextPage = request ''loadNextPage'',
      paging_loadPreviousPage = request ''loadPreviousPage'',
      paging_reset = request ''reset'',
      paging_setPageSize = (\<lambda>n. request ''setPageSize''),
      dataset_columns = hostColumns,
      dataset_records = hostRecords,
      dataset_sortedRecordIds = hostSortedRecordIds,
      dataset_setSorting = (\<lambda>sorting h. h\<lparr>hostSorting := sorting\<rparr>),
      dataset_refresh = request ''refresh''\<rparr>"

text \<open>Three records with a status, and the filter of the status that contains "activ".\<close>

definition scenarioRecords :: RecordStore where
  "scenarioRecords =
     [''A'' \<mapsto> [''Status'' \<mapsto> ''active''],
      ''B'' \<mapsto> [''Status'' \<mapsto> ''Inactive''],
      ''C'' \<mapsto> [''Status'' \<mapsto> ''pending'']]"

definition statusContainsActiv :: ColumnFilters where
  "statusContainsActiv =
     [(''Status'', \<lparr>columnName = ''Status'', operator = ''Contains'', value = ''activ''\<rparr>)]"


text \<open>
  A data set with these records and the column of the status, of which the host reports
  \<open>n\<close> results and a next page or none.
\<close>

definition scenarioHost :: "int \<Rightarrow> bool \<Rightarrow> Host" where
  "scenarioHost n hasNext =
     \<lparr>hostHasNextPage = hasNext,
      hostTotalResultCount = n,
      hostColumns = [\<lparr>name = ''Status'', displayName = ''Status''\<rparr>],
      hostRecords = scenarioRecords,
      hostSortedRecordIds = [''A'', ''B'', ''C''],
      hostSorting = [],
      hostRequests = []\<rparr>"

text \<open>
  A control that has been updated and sorted on the status, and a component whose filter
  mapping holds the filter of the status that contains "activ".
\<close>

definition sortedAndFiltered :: "TableGrid \<times> CustomTableState" where
  "sortedAndFiltered =
     (gridRun hostApi
        [UpdateView None (scenarioHost 3 False), Sort ''Status'' (scenarioHost 3 False)],
      tableRun [OpenFilter ''Status'', SetValue ''activ'', ApplyFilter])"

section \<open>The view window\<close>

lemma slice_window:
  assumes "0 \<le> a" and "0 \<le> n"
  shows "slice xs a (a + n) = take (nat n) (drop (nat a) xs)"
proof (cases "int (length xs) \<le> a")
  case True
  with assms show ?thesis
    by (simp add: slice_def Let_def min_def)
next
  case False
  show ?thesis
  proof (cases "a + n \<le> int (length xs)")
    case True
    with False assms have "nat (a + n - a) = nat n" by simp
    with True False assms show ?thesis
      by (simp add: slice_def Let_def min_def)
  next
    case over: False
    with False assms have "length (drop (nat a) xs) \<le> nat n"
      by simp
    with over False assms show ?thesis
      by (simp add: slice_def Let_def min_def nat_diff_distrib)
  qed
qed

lemma set_slice_subset: "set (slice xs a b) \<subseteq> set xs"
proof -
  have "set (take n (drop k xs)) \<subseteq> set xs" for n k
    by (meson set_take_subset set_drop_subset subset_trans)
  then show ?thesis by (simp add: slice_def Let_def)
qed

lemma subseq_take_drop: "subseq (take n (drop k xs)) xs"
proof -
  have "subseq (take n (drop k xs)) (drop k xs)"
    by (metis append_take_drop_id subseq_rev_drop_many subseq_order.order_refl)
  moreover have "subseq (drop k xs) xs"
    by (metis append_take_drop_id subseq_drop_many subseq_order.order_refl)
  ultimately show ?thesis by (rule subseq_order.order_trans)
qed


text \<open>
  C1. For a page \<open>p\<close> from 1 on and a page size \<open>s\<close> that is not negative (the page size
  of the data model is a positive integer, and the control passes 10), the displayed ids
  are the slice from \<open>(p - 1) * s\<close> to \<open>(p - 1) * s + s\<close> of the ids that pass the filter
  predicate, in their order, all ids being kept when the filter mapping is empty. The
  result is a subsequence of the ordered ids, has at most \<open>s\<close> elements, fewer on the last
  page, and is empty when \<open>(p - 1) * s\<close> is at least the number of kept ids.
\<close>

theorem displayRecordIds_window:
  assumes "1 \<le> p" and "0 \<le> s"
  shows "let kept = (if fs = [] then orderedIds
                     else filter (filterPredicate recs fs) orderedIds);
             start = nat ((p - 1) * s);
             window = displayRecordIds recs orderedIds fs p s
         in window = take (nat s) (drop start kept)
            \<and> subseq kept orderedIds
            \<and> subseq window orderedIds
            \<and> length window = min (nat s) (length kept - start)
            \<and> int (length window) \<le> s
            \<and> (length kept \<le> start \<longrightarrow> window = [])"
proof -
  define kept where "kept = (if fs = [] then orderedIds
                     else filter (filterPredicate recs fs) orderedIds)"
  define start where "start = nat ((p - 1) * s)"
  define window where "window = displayRecordIds recs orderedIds fs p s"
  from assms have nn: "0 \<le> (p - 1) * s" by simp
  have "window = slice kept ((p - 1) * s) ((p - 1) * s + s)"
    by (simp add: window_def kept_def displayRecordIds_def Let_def)
  then have w: "window = take (nat s) (drop start kept)"
    using slice_window [OF nn assms(2)] by (simp add: start_def)
  have k: "subseq kept orderedIds" by (simp add: kept_def)
  have wk: "subseq window kept" unfolding w by (rule subseq_take_drop)
  from wk k have sw: "subseq window orderedIds" by (rule subseq_order.order_trans)
  have len: "length window = min (nat s) (length kept - start)" by (simp add: w)
  with assms(2) have le: "int (length window) \<le> s" by simp
  have emp: "length kept \<le> start \<longrightarrow> window = []" by (simp add: w)
  from w k sw len le emp show ?thesis
    unfolding kept_def [symmetric] start_def [symmetric] window_def [symmetric] Let_def
    by blast
qed

text \<open>
  The scenario of the specification: with a page size of 2 and the five ids a to e, page 3
  is the single id e, and page 4 is empty.
\<close>

theorem displayRecordIds_window_witness:
  "displayRecordIds Map.empty [''a'', ''b'', ''c'', ''d'', ''e''] [] 3 2 = [''e'']
   \<and> displayRecordIds Map.empty [''a'', ''b'', ''c'', ''d'', ''e''] [] 4 2 = []"
  using displayRecordIds_window [of 3 2 "[]" "[''a'', ''b'', ''c'', ''d'', ''e'']" Map.empty]
        displayRecordIds_window [of 4 2 "[]" "[''a'', ''b'', ''c'', ''d'', ''e'']" Map.empty]
  by (simp add: Let_def)


section \<open>The filter predicate\<close>

text \<open>
  The case mapping of the code sends two characters to the same character exactly when
  they are the same letter.
\<close>

lemma letters_distinct:
  "distinct ''ABCDEFGHIJKLMNOPQRSTUVWXYZ''" "distinct ''abcdefghijklmnopqrstuvwxyz''"
  by simp_all



















section \<open>Ids without a record\<close>

text \<open>
  With an empty filter mapping the ids are not looked up in the record store: an id
  without a record is displayed.
\<close>

theorem absent_record_counterexample:
  "(Map.empty :: RecordStore) ''r1'' = None
   \<and> ''r1'' \<in> set (displayRecordIds Map.empty [''r1''] [] 1 10)"
  by (simp add: displayRecordIds_def slice_def)

text \<open>
  C3, amended. When the filter mapping is not empty, an id without a record is never among
  the displayed ids, whatever the filters, the page and the page size are. When the filter
  mapping is empty, the displayed ids are the slice of the ordered ids and the record store
  is not read: an id without a record is among them exactly when it is in that slice.
\<close>

theorem absent_record_excluded_by_filters:
  assumes "recs recordId = None"
  shows "(fs \<noteq> [] \<longrightarrow>
            recordId \<notin> set (displayRecordIds recs orderedIds fs p s))
       \<and> (fs = [] \<longrightarrow>
            displayRecordIds recs orderedIds fs p s
              = slice orderedIds ((p - 1) * s) ((p - 1) * s + s))"
proof -
  have "\<not> filterPredicate recs fs recordId"
    using assms by (simp add: filterPredicate_def)
  then have "recordId \<notin> set (filter (filterPredicate recs fs) orderedIds)"
    by simp
  then have "recordId \<notin> set (slice (filter (filterPredicate recs fs) orderedIds) a b)" for a b
    using set_slice_subset by fastforce
  then show ?thesis
    by (simp add: displayRecordIds_def Let_def)
qed

theorem absent_record_excluded_by_filters_witness:
  "scenarioRecords ''ghost'' = None
   \<and> ''ghost'' \<notin> set (displayRecordIds scenarioRecords [''A'', ''ghost'', ''B'']
        [(''Status'', \<lparr>columnName = ''Status'', operator = ''Does not contain'', value = ''x''\<rparr>)]
        1 10)
   \<and> displayRecordIds scenarioRecords [''A'', ''ghost'', ''B'']
        [(''Status'', \<lparr>columnName = ''Status'', operator = ''Does not contain'', value = ''x''\<rparr>)]
        1 10 = [''A'', ''B'']
   \<and> displayRecordIds scenarioRecords [''A'', ''ghost'', ''B''] [] 1 10 = [''A'', ''ghost'', ''B'']"
  using absent_record_excluded_by_filters [of scenarioRecords "''ghost''"
          "[(''Status'', \<lparr>columnName = ''Status'', operator = ''Does not contain'', value = ''x''\<rparr>)]"
          "[''A'', ''ghost'', ''B'']" 1 10]
        absent_record_excluded_by_filters [of scenarioRecords "''ghost''" "[]"
          "[''A'', ''ghost'', ''B'']" 1 10]
  by (simp add: scenarioRecords_def slice_def displayRecordIds_def filterPredicate_def
      filterMatches_def stringOrEmpty_def includesStr_def toLowerCase_def toLowerCaseChar_def
      sublist_code)


text \<open>
  The statement above is about the value of \<^verbatim>\<open>displayRecordIds\<close> only. The reads of a
  record in \<^verbatim>\<open>recordsJson\<close> of the component and in \<^verbatim>\<open>convertRecordsToJson\<close> of the
  control have no test of the record, unlike the filter callback and the cells: with an id
  without a record they throw as soon as the data set has a column, and the control then
  gives no properties to the component.
\<close>

lemma recordsJson_absent_record:
  "recordsJson [\<lparr>name = ''Status'', displayName = ''Status''\<rparr>] Map.empty [''ghost''] = None
   \<and> recordsJson [] Map.empty [''ghost''] = Some [[(''recordId'', Some ''ghost'')]]"
  by (simp add: recordsJson_def recordToObject_def)

lemma convertRecordsToJson_absent_record:
  "convertRecordsToJson [\<lparr>name = ''Status'', displayName = ''Status''\<rparr>]
     (initialGrid\<lparr>sortedRecordsIds := [''ghost'']\<rparr>) = None"
  by (simp add: convertRecordsToJson_def recordToObject_def initialGrid_def)


section \<open>The sort state\<close>

lemma sortState_onSort:
  "sortState (fst (onSort api c (g, d))) =
     (case sortState g of (col, dir) \<Rightarrow>
        if col = Some c
        then (if dir = Ascending then (Some c, Descending)
              else if dir = Descending then (None, SortNone)
              else (Some c, Ascending))
        else (Some c, Ascending))"
  by (simp add: onSort_def sortState_def Let_def split: option.splits)

lemma sortState_onSort3:
  assumes "sortState g = (col, dir)"
  shows "sortState (fst (onSort api c (fst (onSort api c (fst (onSort api c (g, d1)), d2)), d3)))
     = (if col = Some c \<and> dir = Ascending then (Some c, Ascending)
        else if col = Some c \<and> dir = Descending then (Some c, Descending)
        else (None, SortNone))"
  using assms by (cases dir; cases "col = Some c") (simp_all add: sortState_onSort)

lemma sortState_initialGrid: "sortState initialGrid = (None, Ascending)"
  by (simp add: sortState_def initialGrid_def)

text \<open>
  The control starts with no sorted column and the direction Ascending. Three requests on
  the column Name lead from there to no sorted column and the direction None, which is
  not the state at the start.
\<close>

theorem onSort_cycle_counterexample:
  "sortState (fst (onSort hostApi ''Name''
       (fst (onSort hostApi ''Name''
          (fst (onSort hostApi ''Name'' (initialGrid, scenarioHost 3 False)),
           scenarioHost 3 False)),
        scenarioHost 3 False)))
     = (None, SortNone)
   \<and> sortState initialGrid = (None, Ascending)"
  using sortState_onSort3 [OF sortState_initialGrid] sortState_initialGrid by simp

text \<open>
  C4, amended. A request on a column other than the sorted one gives that column and
  Ascending. A request on the sorted column takes Ascending to Descending, and Descending
  to None with no sorted column. Three requests on one column, whatever the data set is at
  each of them, lead back to the state at the start when that state is no column with
  None, or the requested column with Ascending or Descending. From a state with no sorted
  column, three requests on the column Name end with no sorted column and None.
\<close>

theorem onSort_cycle:
  "(currentSortColumn g \<noteq> Some c \<longrightarrow>
      sortState (fst (onSort api c (g, d))) = (Some c, Ascending))
   \<and> (currentSortColumn g = Some c \<and> currentSortDirection g = Ascending \<longrightarrow>
      sortState (fst (onSort api c (g, d))) = (Some c, Descending))
   \<and> (currentSortColumn g = Some c \<and> currentSortDirection g = Descending \<longrightarrow>
      sortState (fst (onSort api c (g, d))) = (None, SortNone))
   \<and> (sortState g = (None, SortNone) \<or> sortState g = (Some c, Ascending)
        \<or> sortState g = (Some c, Descending) \<longrightarrow>
      sortState (fst (onSort api c (fst (onSort api c (fst (onSort api c (g, d1)), d2)), d3)))
        = sortState g)
   \<and> (currentSortColumn g = None \<longrightarrow>
      sortState (fst (onSort api ''Name''
         (fst (onSort api ''Name'' (fst (onSort api ''Name'' (g, d1)), d2)), d3)))
        = (None, SortNone))"
proof -
  obtain col dir where s: "sortState g = (col, dir)" by (cases "sortState g")
  then have cd: "currentSortColumn g = col" "currentSortDirection g = dir"
    by (simp_all add: sortState_def)
  show ?thesis
    unfolding cd sortState_onSort3 [OF s] sortState_onSort s
    by auto
qed


text \<open>
  From the state at the start, a request on Name gives Name and Ascending, a second one
  Name and Descending, a third one no column and None; three more requests from the state
  after the first one lead back to it.
\<close>

theorem onSort_cycle_witness:
  "sortState (fst (onSort hostApi ''Name'' (initialGrid, scenarioHost 3 False)))
     = (Some ''Name'', Ascending)
   \<and> sortState (fst (onSort hostApi ''Name''
        (initialGrid\<lparr>currentSortColumn := Some ''Name''\<rparr>, scenarioHost 3 False)))
     = (Some ''Name'', Descending)
   \<and> sortState (fst (onSort hostApi ''Name''
        (initialGrid\<lparr>currentSortColumn := Some ''Name'', currentSortDirection := Descending\<rparr>,
         scenarioHost 3 False)))
     = (None, SortNone)
   \<and> sortState (fst (onSort hostApi ''Name''
       (fst (onSort hostApi ''Name''
          (fst (onSort hostApi ''Name''
             (initialGrid\<lparr>currentSortColumn := Some ''Name''\<rparr>, scenarioHost 3 False)),
           scenarioHost 3 False)),
        scenarioHost 3 False)))
     = (Some ''Name'', Ascending)
   \<and> sortState (fst (onSort hostApi ''Name''
       (fst (onSort hostApi ''Name''
          (fst (onSort hostApi ''Name'' (initialGrid, scenarioHost 3 False)),
           scenarioHost 3 False)),
        scenarioHost 3 False)))
     = (None, SortNone)"
  using onSort_cycle [of initialGrid "''Name''" hostApi "scenarioHost 3 False"
          "scenarioHost 3 False" "scenarioHost 3 False" "scenarioHost 3 False"]
        onSort_cycle [of "initialGrid\<lparr>currentSortColumn := Some ''Name''\<rparr>" "''Name''" hostApi
          "scenarioHost 3 False" "scenarioHost 3 False" "scenarioHost 3 False" "scenarioHost 3 False"]
        onSort_cycle [of "initialGrid\<lparr>currentSortColumn := Some ''Name'',
            currentSortDirection := Descending\<rparr>" "''Name''" hostApi
          "scenarioHost 3 False" "scenarioHost 3 False" "scenarioHost 3 False" "scenarioHost 3 False"]
  by (simp add: initialGrid_def sortState_def)


section \<open>The fields of the control after a call of updateView\<close>

lemma fst_renderGrid:
  "fst (renderGrid api r d g) =
     (case convertRecordsToJson (dataset_columns api d) g of
        None \<Rightarrow> g
      | Some jsonData \<Rightarrow> g\<lparr>recordsToJson := Some jsonData\<rparr>)"
  by (simp add: renderGrid_def Let_def split: option.splits)

lemma props_renderGrid:
  "snd (snd (renderGrid api r d g)) = Some props \<Longrightarrow>
     props = gridProps r (fst (renderGrid api r d g))"
  by (cases "convertRecordsToJson (dataset_columns api d) g") (auto simp: renderGrid_def Let_def)

lemma renderGrid_fields:
  "sortState (fst (renderGrid api r d g)) = sortState g"
  "currentPage (fst (renderGrid api r d g)) = currentPage g"
  "selectedRecordIds (fst (renderGrid api r d g)) = selectedRecordIds g"
  "selectedRecordObjects (fst (renderGrid api r d g)) = selectedRecordObjects g"
  "selectedLinkRecords (fst (renderGrid api r d g)) = selectedLinkRecords g"
  "previousRefreshValue (fst (renderGrid api r d g)) = previousRefreshValue g"
  by (cases "convertRecordsToJson (dataset_columns api d) g";
      simp add: fst_renderGrid sortState_def)+

lemma storeDataSet_fields:
  "sortState (storeDataSet api d g) = sortState g"
  "currentPage (storeDataSet api d g) = currentPage g"
  "selectedRecordIds (storeDataSet api d g) = selectedRecordIds g"
  "selectedRecordObjects (storeDataSet api d g) = selectedRecordObjects g"
  "selectedLinkRecords (storeDataSet api d g) = selectedLinkRecords g"
  "previousRefreshValue (storeDataSet api d g) = previousRefreshValue g"
  by (simp_all add: storeDataSet_def Let_def sortState_def)

lemma resetOnRefresh_fields:
  "sortState (fst (resetOnRefresh api r (g, d))) =
     (if r \<and> \<not> previousRefreshValue g then (None, Ascending) else sortState g)"
  "currentPage (fst (resetOnRefresh api r (g, d))) =
     (if r \<and> \<not> previousRefreshValue g then 1 else currentPage g)"
  "selectedRecordIds (fst (resetOnRefresh api r (g, d))) =
     (if r \<and> \<not> previousRefreshValue g then [] else selectedRecordIds g)"
  "selectedRecordObjects (fst (resetOnRefresh api r (g, d))) =
     (if r \<and> \<not> previousRefreshValue g then [] else selectedRecordObjects g)"
  "selectedLinkRecords (fst (resetOnRefresh api r (g, d))) =
     (if r \<and> \<not> previousRefreshValue g then [] else selectedLinkRecords g)"
  by (simp_all add: resetOnRefresh_def sortState_def)

lemma fst_updateView:
  "fst (updateView api raw (g, d)) =
     fst (renderGrid api (raw = Some True)
       (paging_setPageSize api 10 (snd (resetOnRefresh api (raw = Some True) (g, d))))
       (storeDataSet api (paging_setPageSize api 10 (snd (resetOnRefresh api (raw = Some True) (g, d))))
          ((fst (resetOnRefresh api (raw = Some True) (g, d)))\<lparr>previousRefreshValue := (raw = Some True)\<rparr>)))"
  by (simp add: updateView_def Let_def)

lemma sortState_more: "sortState (g\<lparr>previousRefreshValue := b\<rparr>) = sortState g"
  by (simp add: sortState_def)

lemma sortState_updateView:
  "sortState (fst (updateView api raw (g, d))) =
     (if raw = Some True \<and> \<not> previousRefreshValue g then (None, Ascending) else sortState g)"
  by (simp only: fst_updateView renderGrid_fields storeDataSet_fields sortState_more
      resetOnRefresh_fields)

lemma currentPage_updateView:
  "currentPage (fst (updateView api raw (g, d))) =
     (if raw = Some True \<and> \<not> previousRefreshValue g then 1 else currentPage g)"
  by (simp add: fst_updateView renderGrid_fields storeDataSet_fields resetOnRefresh_fields)

lemma selection_updateView:
  "selectedRecordIds (fst (updateView api raw (g, d))) =
     (if raw = Some True \<and> \<not> previousRefreshValue g then [] else selectedRecordIds g)"
  "selectedRecordObjects (fst (updateView api raw (g, d))) =
     (if raw = Some True \<and> \<not> previousRefreshValue g then [] else selectedRecordObjects g)"
  "selectedLinkRecords (fst (updateView api raw (g, d))) =
     (if raw = Some True \<and> \<not> previousRefreshValue g then [] else selectedLinkRecords g)"
  by (simp_all add: fst_updateView renderGrid_fields storeDataSet_fields resetOnRefresh_fields)

lemma previousRefreshValue_updateView:
  "previousRefreshValue (fst (updateView api raw (g, d))) = (raw = Some True)"
  by (simp add: fst_updateView renderGrid_fields storeDataSet_fields)

lemma props_updateView:
  assumes "snd (snd (updateView api raw (g, d))) = Some props"
  shows "props = gridProps (raw = Some True) (fst (updateView api raw (g, d)))"
  using assms unfolding updateView_def Let_def by (rule props_renderGrid)

lemma renderGrid_more_fields:
  "totalRecordCount (fst (renderGrid api r d g)) = totalRecordCount g"
  "records (fst (renderGrid api r d g)) = records g"
  "sortedRecordsIds (fst (renderGrid api r d g)) = sortedRecordsIds g"
  by (cases "convertRecordsToJson (dataset_columns api d) g"; simp add: fst_renderGrid)+

lemma storeDataSet_known_total:
  "0 \<le> paging_totalResultCount api d \<Longrightarrow>
     totalRecordCount (storeDataSet api d g) = paging_totalResultCount api d"
  by (simp add: storeDataSet_def Let_def)

lemma storeDataSet_records:
  "records (storeDataSet api d g) = dataset_records api d"
  "sortedRecordsIds (storeDataSet api d g) = dataset_sortedRecordIds api d"
  by (simp_all add: storeDataSet_def Let_def)

text \<open>The data set of the examples: what the control reads after its requests.\<close>

lemma hostApi_reads:
  "paging_hasNextPage hostApi h = hostHasNextPage h"
  "paging_totalResultCount hostApi h = hostTotalResultCount h"
  "dataset_columns hostApi h = hostColumns h"
  "dataset_records hostApi h = hostRecords h"
  "dataset_sortedRecordIds hostApi h = hostSortedRecordIds h"
  by (simp_all add: hostApi_def)

lemma hostApi_requests:
  "paging_loadNextPage hostApi h = request ''loadNextPage'' h"
  "paging_loadPreviousPage hostApi h = request ''loadPreviousPage'' h"
  "paging_reset hostApi h = request ''reset'' h"
  "paging_setPageSize hostApi n h = request ''setPageSize'' h"
  "dataset_setSorting hostApi sorting h = h\<lparr>hostSorting := sorting\<rparr>"
  "dataset_refresh hostApi h = request ''refresh'' h"
  by (simp_all add: hostApi_def)

lemma request_reads:
  "hostHasNextPage (request r h) = hostHasNextPage h"
  "hostTotalResultCount (request r h) = hostTotalResultCount h"
  "hostColumns (request r h) = hostColumns h"
  "hostRecords (request r h) = hostRecords h"
  "hostSortedRecordIds (request r h) = hostSortedRecordIds h"
  by (simp_all add: request_def)

lemma resetOnRefresh_host_reads:
  "hostHasNextPage (snd (resetOnRefresh hostApi r (g, h))) = hostHasNextPage h"
  "hostTotalResultCount (snd (resetOnRefresh hostApi r (g, h))) = hostTotalResultCount h"
  "hostColumns (snd (resetOnRefresh hostApi r (g, h))) = hostColumns h"
  "hostRecords (snd (resetOnRefresh hostApi r (g, h))) = hostRecords h"
  "hostSortedRecordIds (snd (resetOnRefresh hostApi r (g, h))) = hostSortedRecordIds h"
  by (simp_all add: resetOnRefresh_def hostApi_requests request_reads)

lemma scenarioHost_reads:
  "hostHasNextPage (scenarioHost n b) = b"
  "hostTotalResultCount (scenarioHost n b) = n"
  "hostColumns (scenarioHost n b) = [\<lparr>name = ''Status'', displayName = ''Status''\<rparr>]"
  "hostRecords (scenarioHost n b) = scenarioRecords"
  "hostSortedRecordIds (scenarioHost n b) = [''A'', ''B'', ''C'']"
  by (simp_all add: scenarioHost_def)

lemma updateView_scenarioHost:
  "records (fst (updateView hostApi raw (g, scenarioHost n b))) = scenarioRecords"
  "sortedRecordsIds (fst (updateView hostApi raw (g, scenarioHost n b))) = [''A'', ''B'', ''C'']"
  "0 \<le> n \<Longrightarrow> totalRecordCount (fst (updateView hostApi raw (g, scenarioHost n b))) = n"
  by (simp_all add: fst_updateView renderGrid_more_fields storeDataSet_records
      storeDataSet_known_total hostApi_reads hostApi_requests request_reads
      resetOnRefresh_host_reads scenarioHost_reads)

lemma convert_scenario:
  assumes "records g = scenarioRecords" and "sortedRecordsIds g = [''A'', ''B'', ''C'']"
  shows "convertRecordsToJson [\<lparr>name = ''Status'', displayName = ''Status''\<rparr>] g
     = Some [[(''recordId'', Some ''A''), (''Status'', Some ''active'')],
             [(''recordId'', Some ''B''), (''Status'', Some ''Inactive'')],
             [(''recordId'', Some ''C''), (''Status'', Some ''pending'')]]"
  by (simp add: convertRecordsToJson_def recordToObject_def assms scenarioRecords_def)

lemma props_updateView_scenarioHost:
  "snd (snd (updateView hostApi raw (g, scenarioHost n b)))
     = Some (gridProps (raw = Some True) (fst (updateView hostApi raw (g, scenarioHost n b))))"
proof -
  define d2 where "d2 = paging_setPageSize hostApi 10
      (snd (resetOnRefresh hostApi (raw = Some True) (g, scenarioHost n b)))"
  define g4 where "g4 = storeDataSet hostApi d2
      ((fst (resetOnRefresh hostApi (raw = Some True) (g, scenarioHost n b)))
         \<lparr>previousRefreshValue := (raw = Some True)\<rparr>)"
  have u: "updateView hostApi raw (g, scenarioHost n b) = renderGrid hostApi (raw = Some True) d2 g4"
    by (simp add: updateView_def Let_def d2_def g4_def)
  have cols: "dataset_columns hostApi d2 = [\<lparr>name = ''Status'', displayName = ''Status''\<rparr>]"
    by (simp add: d2_def hostApi_reads hostApi_requests request_reads
        resetOnRefresh_host_reads scenarioHost_reads)
  have "records g4 = scenarioRecords" and "sortedRecordsIds g4 = [''A'', ''B'', ''C'']"
    by (simp_all add: g4_def d2_def storeDataSet_records hostApi_reads hostApi_requests
        request_reads resetOnRefresh_host_reads scenarioHost_reads)
  then have "convertRecordsToJson (dataset_columns hostApi d2) g4 \<noteq> None"
    unfolding cols by (simp add: convert_scenario)
  then show ?thesis
    unfolding u by (auto simp: renderGrid_def Let_def)
qed

section \<open>The invariant of the sort state\<close>

lemma gridRun_snoc: "gridRun api (events @ [e]) = gridStep api e (gridRun api events)"
  by (simp add: gridRun_def)

lemma sortState_onNavigate: "sortState (fst (onNavigate api direction (g, d))) = sortState g"
  by (cases direction) (simp_all add: onNavigate_def sortState_def Let_def)

lemma sortState_onSelectionChange: "sortState (onSelectionChange ids g) = sortState g"
  by (simp add: onSelectionChange_def sortState_def Let_def)

lemma sortState_onLinkClick: "sortState (onLinkClick recordId g) = sortState g"
  by (simp add: onLinkClick_def sortState_def split: option.splits)

lemma sortState_gridStep:
  "sortState (gridStep api e g) =
     (case e of
        Sort c d \<Rightarrow> sortState (fst (onSort api c (g, d)))
      | UpdateView raw d \<Rightarrow>
          (if raw = Some True \<and> \<not> previousRefreshValue g then (None, Ascending) else sortState g)
      | _ \<Rightarrow> sortState g)"
  by (cases e)
    (simp_all add: sortState_onNavigate sortState_onSelectionChange sortState_onLinkClick
      sortState_updateView)

lemma sortState_reachable:
  "sortState (gridRun api events) = (None, SortNone)
   \<or> sortState (gridRun api events) = (None, Ascending)
   \<or> (\<exists>c. sortState (gridRun api events) = (Some c, Ascending))
   \<or> (\<exists>c. sortState (gridRun api events) = (Some c, Descending))"
proof (induction events rule: rev_induct)
  case Nil
  show ?case by (simp add: gridRun_def sortState_initialGrid)
next
  case (snoc e events)
  then show ?case
    unfolding gridRun_snoc sortState_gridStep sortState_onSort
    by (cases e) (auto split: if_splits)
qed

text \<open>
  In the state at the start the sorted column is null and the direction is Ascending,
  and so it is after a refresh.
\<close>

theorem sort_invariant_counterexample:
  "sortState (gridRun hostApi []) = (None, Ascending)
   \<and> sortState (gridRun hostApi [UpdateView (Some True) (scenarioHost 3 False)])
       = (None, Ascending)"
  by (simp add: gridRun_def sortState_updateView sortState_initialGrid)

text \<open>
  C5, amended. In every state that a sequence of calls reaches from the state at the start,
  whatever the data sets are: when the direction is None the sorted column is null, and
  when the sorted column is null the direction is None or Ascending (Ascending at the
  start and after a refresh, None after the third request on a column). A sorted column
  has the direction Ascending or Descending.
\<close>

theorem sort_invariant:
  "(currentSortDirection (gridRun api events) = SortNone \<longrightarrow>
      currentSortColumn (gridRun api events) = None)
   \<and> (currentSortColumn (gridRun api events) = None \<longrightarrow>
      currentSortDirection (gridRun api events) \<in> {SortNone, Ascending})
   \<and> (currentSortColumn (gridRun api events) \<noteq> None \<longrightarrow>
      currentSortDirection (gridRun api events) \<in> {Ascending, Descending})"
  using sortState_reachable [of api events] by (auto simp: sortState_def)

text \<open>
  One request on the status gives the status and Ascending; three requests give no column
  and None.
\<close>

theorem sort_invariant_witness:
  "sortState (gridRun hostApi [Sort ''Status'' (scenarioHost 3 False)])
     = (Some ''Status'', Ascending)
   \<and> sortState (gridRun hostApi
        [Sort ''Status'' (scenarioHost 3 False), Sort ''Status'' (scenarioHost 3 False),
         Sort ''Status'' (scenarioHost 3 False)]) = (None, SortNone)"
  using sort_invariant [of hostApi "[Sort ''Status'' (scenarioHost 3 False)]"]
        sort_invariant [of hostApi "[Sort ''Status'' (scenarioHost 3 False),
          Sort ''Status'' (scenarioHost 3 False), Sort ''Status'' (scenarioHost 3 False)]"]
  by (simp add: gridRun_def sortState_onSort sortState_initialGrid)


section \<open>Navigation\<close>

lemma loadPages_no_next: "\<not> paging_hasNextPage api d \<Longrightarrow> loadPages api d n = d"
  by simp

lemma onNavigate_last_no_next:
  "\<not> paging_hasNextPage api d \<Longrightarrow>
     onNavigate api Last (g, d) = (g\<lparr>currentPage := totalPages g\<rparr>, d)"
  by (simp add: onNavigate_def Let_def)

text \<open>
  The host reports 25 results and no next page, and the control is on page 1: a request
  for the last page sets the page to 3, and asks nothing of the data set.
\<close>

theorem onNavigate_last_counterexample:
  "\<not> paging_hasNextPage hostApi (scenarioHost 25 False)
   \<and> currentPage (gridRun hostApi [UpdateView None (scenarioHost 25 False)]) = 1
   \<and> currentPage (gridRun hostApi [UpdateView None (scenarioHost 25 False),
                                   Navigate Last (scenarioHost 25 False)]) = 3
   \<and> snd (onNavigate hostApi Last
            (gridRun hostApi [UpdateView None (scenarioHost 25 False)], scenarioHost 25 False))
       = scenarioHost 25 False"
proof -
  define g1 where "g1 = gridRun hostApi [UpdateView None (scenarioHost 25 False)]"
  have no: "\<not> paging_hasNextPage hostApi (scenarioHost 25 False)"
    by (simp add: hostApi_reads scenarioHost_reads)
  have g1: "g1 = fst (updateView hostApi None (initialGrid, scenarioHost 25 False))"
    by (simp add: g1_def gridRun_def)
  have page: "currentPage g1 = 1"
    by (simp add: g1 currentPage_updateView initialGrid_def)
  have total: "totalRecordCount g1 = 25"
    by (simp add: g1 updateView_scenarioHost)
  have pages: "totalPages g1 = 3"
    by (simp add: totalPages_def total ceilDiv_def pageSize_def)
  have two: "gridRun hostApi [UpdateView None (scenarioHost 25 False),
                             Navigate Last (scenarioHost 25 False)]
      = fst (onNavigate hostApi Last (g1, scenarioHost 25 False))"
    by (simp add: g1 gridRun_def)
  from no page pages show ?thesis
    unfolding two g1_def [symmetric]
    by (simp add: onNavigate_last_no_next)
qed

text \<open>
  C6, amended. A request for the next page when the data set has no next page, for the
  previous page on page 1 or below, and for the first page on page 1 leaves the control
  and the data set as they are. A request for the last page when the data set has no next
  page leaves the data set as it is and sets the page to the number of pages computed
  from the total count, the total divided by 10 and rounded up, or 1 when the total is not
  positive. A call of \<^verbatim>\<open>updateView\<close> that is not the rising edge of the refresh signal, a
  change of the selection and a click on a link leave the page as it is, whatever total
  count the host reports.
\<close>

theorem onNavigate_beyond_pages:
  "(\<not> paging_hasNextPage api d \<longrightarrow> onNavigate api Next (g, d) = (g, d))
   \<and> (currentPage g \<le> 1 \<longrightarrow> onNavigate api Previous (g, d) = (g, d))
   \<and> (currentPage g = 1 \<longrightarrow> onNavigate api First (g, d) = (g, d))
   \<and> (\<not> paging_hasNextPage api d \<longrightarrow>
        onNavigate api Last (g, d)
          = (g\<lparr>currentPage :=
                  (if totalRecordCount g > 0 then - ((- totalRecordCount g) div 10) else 1)\<rparr>, d))
   \<and> (\<not> (raw = Some True \<and> \<not> previousRefreshValue g) \<longrightarrow>
        currentPage (fst (updateView api raw (g, d))) = currentPage g)
   \<and> currentPage (onSelectionChange ids g) = currentPage g
   \<and> currentPage (onLinkClick recordId g) = currentPage g"
proof -
  have sel: "currentPage (onSelectionChange ids g) = currentPage g"
    by (simp add: onSelectionChange_def Let_def)
  have link: "currentPage (onLinkClick recordId g) = currentPage g"
    by (simp add: onLinkClick_def split: option.splits)
  have nav: "(\<not> paging_hasNextPage api d \<longrightarrow> onNavigate api Next (g, d) = (g, d))
   \<and> (currentPage g \<le> 1 \<longrightarrow> onNavigate api Previous (g, d) = (g, d))
   \<and> (currentPage g = 1 \<longrightarrow> onNavigate api First (g, d) = (g, d))
   \<and> (\<not> paging_hasNextPage api d \<longrightarrow>
        onNavigate api Last (g, d)
          = (g\<lparr>currentPage :=
                  (if totalRecordCount g > 0 then - ((- totalRecordCount g) div 10) else 1)\<rparr>, d))"
    by (simp add: onNavigate_def Let_def totalPages_def ceilDiv_def pageSize_def)
  from nav sel link show ?thesis
    by (simp add: currentPage_updateView)
qed

text \<open>
  At the start, on page 1 of a data set without a next page, no request changes the control
  or asks anything of the data set. A call of \<^verbatim>\<open>updateView\<close> while the signal stays true
  keeps page 2, although the host reports 25 results.
\<close>

theorem onNavigate_beyond_pages_witness:
  "onNavigate hostApi Next (initialGrid, scenarioHost 3 False) = (initialGrid, scenarioHost 3 False)
   \<and> onNavigate hostApi Previous (initialGrid, scenarioHost 3 False)
       = (initialGrid, scenarioHost 3 False)
   \<and> onNavigate hostApi First (initialGrid, scenarioHost 3 False)
       = (initialGrid, scenarioHost 3 False)
   \<and> onNavigate hostApi Last (initialGrid\<lparr>totalRecordCount := 3\<rparr>, scenarioHost 3 False)
       = (initialGrid\<lparr>totalRecordCount := 3\<rparr>, scenarioHost 3 False)
   \<and> currentPage (fst (updateView hostApi (Some True)
        (initialGrid\<lparr>currentPage := 2, previousRefreshValue := True\<rparr>, scenarioHost 25 True))) = 2"
  using onNavigate_beyond_pages [of hostApi "scenarioHost 3 False" initialGrid None]
        onNavigate_beyond_pages [of hostApi "scenarioHost 3 False"
          "initialGrid\<lparr>totalRecordCount := 3\<rparr>" None]
        onNavigate_beyond_pages [of hostApi "scenarioHost 25 True"
          "initialGrid\<lparr>currentPage := 2, previousRefreshValue := True\<rparr>" "Some True"]
  by (simp add: hostApi_reads scenarioHost_reads) (simp add: initialGrid_def)


section \<open>The outputs\<close>

lemma stringifyArray_not_empty: "stringifyArray ser xs \<noteq> []"
  by (simp add: stringifyArray_def)

lemma selection_onNavigate:
  "selectedRecordIds (fst (onNavigate api direction (g, d))) = selectedRecordIds g"
  "selectedRecordObjects (fst (onNavigate api direction (g, d))) = selectedRecordObjects g"
  by (cases direction; simp add: onNavigate_def Let_def)+

lemma selection_onSort:
  "selectedRecordIds (fst (onSort api c (g, d))) = selectedRecordIds g"
  "selectedRecordObjects (fst (onSort api c (g, d))) = selectedRecordObjects g"
  by (simp_all add: onSort_def Let_def split: option.splits)

lemma selection_onLinkClick:
  "selectedRecordIds (onLinkClick recordId g) = selectedRecordIds g"
  "selectedRecordObjects (onLinkClick recordId g) = selectedRecordObjects g"
  by (simp_all add: onLinkClick_def split: option.splits)

lemma selection_onSelectionChange:
  "selectedRecordIds (onSelectionChange ids g) = ids"
  "ids = [] \<Longrightarrow> selectedRecordObjects (onSelectionChange ids g) = []"
  by (simp_all add: onSelectionChange_def Let_def)

lemma no_selection_no_objects:
  "selectedRecordIds (gridRun api events) = [] \<longrightarrow> selectedRecordObjects (gridRun api events) = []"
proof (induction events rule: rev_induct)
  case Nil
  show ?case by (simp add: gridRun_def initialGrid_def)
next
  case (snoc e events)
  show ?case
  proof (cases e)
    case (Navigate direction d)
    with snoc show ?thesis by (simp add: gridRun_snoc selection_onNavigate)
  next
    case (Sort c d)
    with snoc show ?thesis by (simp add: gridRun_snoc selection_onSort)
  next
    case (SelectionChange ids)
    then show ?thesis by (simp add: gridRun_snoc selection_onSelectionChange)
  next
    case (LinkClick recordId)
    with snoc show ?thesis by (simp add: gridRun_snoc selection_onLinkClick)
  next
    case (UpdateView raw d)
    with snoc show ?thesis by (simp add: gridRun_snoc selection_updateView)
  qed
qed

text \<open>
  C10. The output SelectedRecordIds is the empty string when the list of the selected
  record objects is empty, and the JSON text of the list otherwise; the output
  SelectedLinkRecords is the empty string when no clicked record is held, and the JSON
  text of the list of that record otherwise. The JSON text of the empty list is the two
  brackets: the empty string is not the JSON text of any list, and each output is the
  empty string only for the empty list. In every state that a sequence of calls reaches,
  an empty list of selected ids gives the empty string as well.
\<close>

theorem getOutputs_empty_string:
  "(selectedRecordObjects g = [] \<longrightarrow> SelectedRecordIds (getOutputs ser g) = [])
   \<and> (selectedLinkRecords g = [] \<longrightarrow> SelectedLinkRecords (getOutputs ser g) = [])
   \<and> (selectedRecordObjects g \<noteq> [] \<longrightarrow>
        SelectedRecordIds (getOutputs ser g) = stringifyArray ser (selectedRecordObjects g))
   \<and> (selectedLinkRecords g \<noteq> [] \<longrightarrow>
        SelectedLinkRecords (getOutputs ser g) = stringifyArray ser (selectedLinkRecords g))
   \<and> stringifyArray ser [] = ''[]''
   \<and> (\<forall>xs. stringifyArray ser xs \<noteq> [])
   \<and> (SelectedRecordIds (getOutputs ser g) = [] \<longleftrightarrow> selectedRecordObjects g = [])
   \<and> (SelectedLinkRecords (getOutputs ser g) = [] \<longleftrightarrow> selectedLinkRecords g = [])
   \<and> (selectedRecordIds (gridRun api events) = [] \<longrightarrow>
        SelectedRecordIds (getOutputs ser (gridRun api events)) = [])"
proof -
  have out: "(selectedRecordObjects g = [] \<longrightarrow> SelectedRecordIds (getOutputs ser g) = [])
   \<and> (selectedLinkRecords g = [] \<longrightarrow> SelectedLinkRecords (getOutputs ser g) = [])
   \<and> (selectedRecordObjects g \<noteq> [] \<longrightarrow>
        SelectedRecordIds (getOutputs ser g) = stringifyArray ser (selectedRecordObjects g))
   \<and> (selectedLinkRecords g \<noteq> [] \<longrightarrow>
        SelectedLinkRecords (getOutputs ser g) = stringifyArray ser (selectedLinkRecords g))
   \<and> stringifyArray ser [] = ''[]''
   \<and> (\<forall>xs. stringifyArray ser xs \<noteq> [])
   \<and> (SelectedRecordIds (getOutputs ser g) = [] \<longleftrightarrow> selectedRecordObjects g = [])
   \<and> (SelectedLinkRecords (getOutputs ser g) = [] \<longleftrightarrow> selectedLinkRecords g = [])" for g
    by (simp add: getOutputs_def Let_def stringifyArray_not_empty) (simp add: stringifyArray_def)
  have run: "selectedRecordIds (gridRun api events) = [] \<longrightarrow>
        SelectedRecordIds (getOutputs ser (gridRun api events)) = []"
    using no_selection_no_objects [of api events]
    by (simp add: getOutputs_def Let_def)
  from out [of g] run show ?thesis
    by (elim conjE) (intro conjI; assumption)
qed

text \<open>
  At the start both outputs are the empty string; two selected objects and one clicked
  record give the texts of a list of two and of one.
\<close>

theorem getOutputs_empty_string_witness:
  "SelectedRecordIds (getOutputs (\<lambda>obj. ''{}'') initialGrid) = []
   \<and> SelectedLinkRecords (getOutputs (\<lambda>obj. ''{}'') initialGrid) = []
   \<and> SelectedRecordIds (getOutputs (\<lambda>obj. ''{}'')
        (initialGrid\<lparr>selectedRecordObjects := [[(''recordId'', Some ''A'')], [(''recordId'', Some ''B'')]]\<rparr>))
       = ''[{},{}]''
   \<and> SelectedLinkRecords (getOutputs (\<lambda>obj. ''{}'')
        (initialGrid\<lparr>selectedLinkRecords := [[(''recordId'', Some ''A'')]]\<rparr>)) = ''[{}]''"
  using getOutputs_empty_string [of initialGrid "\<lambda>obj. ''{}''" hostApi "[]"]
        getOutputs_empty_string [of "initialGrid\<lparr>selectedRecordObjects :=
          [[(''recordId'', Some ''A'')], [(''recordId'', Some ''B'')]]\<rparr>" "\<lambda>obj. ''{}''" hostApi "[]"]
        getOutputs_empty_string [of "initialGrid\<lparr>selectedLinkRecords :=
          [[(''recordId'', Some ''A'')]]\<rparr>" "\<lambda>obj. ''{}''" hostApi "[]"]
  by (simp add: initialGrid_def stringifyArray_def)


section \<open>Applying a filter\<close>












section \<open>The refresh signal\<close>

lemma refreshEffect_True: "refreshEffect True st = initialTableState"
  by (simp add: refreshEffect_def initialTableState_def)

lemma sortedAndFiltered_grid:
  "sortState (fst sortedAndFiltered) = (Some ''Status'', Ascending)"
  "currentPage (fst sortedAndFiltered) = 1"
  "records (fst sortedAndFiltered) = scenarioRecords"
  "sortedRecordsIds (fst sortedAndFiltered) = [''A'', ''B'', ''C'']"
  "\<not> previousRefreshValue (fst sortedAndFiltered)"
proof -
  define g1 where "g1 = fst (updateView hostApi None (initialGrid, scenarioHost 3 False))"
  have g: "fst sortedAndFiltered = fst (onSort hostApi ''Status'' (g1, scenarioHost 3 False))"
    by (simp add: sortedAndFiltered_def gridRun_def g1_def)
  have col: "find (\<lambda>col. name col = ''Status'') (dataset_columns hostApi (scenarioHost 3 False))
      = Some \<lparr>name = ''Status'', displayName = ''Status''\<rparr>"
    by (simp add: hostApi_reads scenarioHost_reads)
  have s1: "sortState g1 = (None, Ascending)"
    by (simp add: g1_def sortState_updateView sortState_initialGrid)
  show "sortState (fst sortedAndFiltered) = (Some ''Status'', Ascending)"
    by (simp add: g sortState_onSort s1)
  show "currentPage (fst sortedAndFiltered) = 1"
    by (simp add: g onSort_def Let_def col split: prod.splits)
  show "records (fst sortedAndFiltered) = scenarioRecords"
    by (simp add: g onSort_def Let_def col g1_def updateView_scenarioHost split: prod.splits)
  show "sortedRecordsIds (fst sortedAndFiltered) = [''A'', ''B'', ''C'']"
    by (simp add: g onSort_def Let_def col g1_def updateView_scenarioHost split: prod.splits)
  show "\<not> previousRefreshValue (fst sortedAndFiltered)"
    by (simp add: g onSort_def Let_def col g1_def previousRefreshValue_updateView split: prod.splits)
qed

lemma sortedAndFiltered_table:
  "snd sortedAndFiltered = initialTableState\<lparr>columnFilters := statusContainsActiv,
      tempFilterValue := ''activ''\<rparr>"
  by (simp add: sortedAndFiltered_def initialTableState_def statusContainsActiv_def trim_def
      isWhiteSpace_def tableRun_def handleOpenFilter_def handleApplyFilter_def mapGet_def
      truthy_def Let_def)

lemma scenario_rows_filtered:
  "displayRecordIds scenarioRecords [''A'', ''B'', ''C''] statusContainsActiv 1 10 = [''A'', ''B'']"
  by (simp add: displayRecordIds_def slice_def filterPredicate_def scenarioRecords_def
      statusContainsActiv_def filterMatches_def stringOrEmpty_def includesStr_def
      toLowerCase_def toLowerCaseChar_def sublist_code)

lemma scenario_rows_all:
  "displayRecordIds scenarioRecords [''A'', ''B'', ''C''] [] 1 10 = [''A'', ''B'', ''C'']"
  by (simp add: displayRecordIds_def slice_def)

lemma gridProps_fields:
  "GridProps.records (gridProps r g) = records g"
  "sortedRecordIds (gridProps r g) = sortedRecordsIds g"
  "GridProps.currentPage (gridProps r g) = currentPage g"
  "recordsPerPage (gridProps r g) = 10"
  "(sortColumn (gridProps r g), sortDirection (gridProps r g)) = sortState g"
  "isTableRefresh (gridProps r g) = r"
  by (simp_all add: gridProps_def pageSize_def sortState_def)

lemma renderFrame_fields:
  "renderFrame props st =
     \<lparr>rowIds = displayRecordIds (GridProps.records props) (sortedRecordIds props) (columnFilters st)
                 (GridProps.currentPage props) (recordsPerPage props),
      sortedHeader = fst (sortColumn props, sortDirection props),
      sortArrow = snd (sortColumn props, sortDirection props),
      filteredHeaders = map fst (columnFilters st),
      pageShown = GridProps.currentPage props\<rparr>"
  by (simp add: renderFrame_def)

text \<open>
  Before the refresh the component shows the rows A and B, and the header of the status
  sorted and filtered. The call of \<^verbatim>\<open>updateView\<close> with the signal risen is followed by
  two passes: the first one shows no sorted header, the header of the status still
  filtered and the rows A and B; the second one shows all three rows and no filtered header.
\<close>

theorem refresh_atomic_counterexample:
  "renderFrame (gridProps False (fst sortedAndFiltered)) (snd sortedAndFiltered)
     = \<lparr>rowIds = [''A'', ''B''], sortedHeader = Some ''Status'', sortArrow = Ascending,
        filteredHeaders = [''Status''], pageShown = 1\<rparr>
   \<and> map_option (\<lambda>props. fst (renderPasses (Some False) props (snd sortedAndFiltered)))
        (snd (snd (updateView hostApi (Some True) (fst sortedAndFiltered, scenarioHost 3 False))))
     = Some [\<lparr>rowIds = [''A'', ''B''], sortedHeader = None, sortArrow = Ascending,
              filteredHeaders = [''Status''], pageShown = 1\<rparr>,
             \<lparr>rowIds = [''A'', ''B'', ''C''], sortedHeader = None, sortArrow = Ascending,
              filteredHeaders = [], pageShown = 1\<rparr>]"
proof -
  define g' where "g' = fst (updateView hostApi (Some True) (fst sortedAndFiltered, scenarioHost 3 False))"
  have before: "renderFrame (gridProps False (fst sortedAndFiltered)) (snd sortedAndFiltered)
     = \<lparr>rowIds = [''A'', ''B''], sortedHeader = Some ''Status'', sortArrow = Ascending,
        filteredHeaders = [''Status''], pageShown = 1\<rparr>"
    unfolding renderFrame_fields gridProps_fields sortedAndFiltered_grid sortedAndFiltered_table
    by (simp add: scenario_rows_filtered) (simp add: statusContainsActiv_def)
  have g': "sortState g' = (None, Ascending)" "currentPage g' = 1"
    "records g' = scenarioRecords" "sortedRecordsIds g' = [''A'', ''B'', ''C'']"
    by (simp_all add: g'_def sortState_updateView currentPage_updateView updateView_scenarioHost
        sortedAndFiltered_grid)
  have first: "renderFrame (gridProps True g') (snd sortedAndFiltered)
     = \<lparr>rowIds = [''A'', ''B''], sortedHeader = None, sortArrow = Ascending,
              filteredHeaders = [''Status''], pageShown = 1\<rparr>"
    unfolding renderFrame_fields gridProps_fields g' sortedAndFiltered_table
    by (simp add: scenario_rows_filtered) (simp add: statusContainsActiv_def)
  have second: "renderFrame (gridProps True g') initialTableState
     = \<lparr>rowIds = [''A'', ''B'', ''C''], sortedHeader = None, sortArrow = Ascending,
              filteredHeaders = [], pageShown = 1\<rparr>"
    unfolding renderFrame_fields gridProps_fields g'
    by (simp add: initialTableState_def scenario_rows_all)
  have passes: "fst (renderPasses (Some False) (gridProps True g') (snd sortedAndFiltered))
     = [renderFrame (gridProps True g') (snd sortedAndFiltered),
        renderFrame (gridProps True g') initialTableState]"
    by (simp add: renderPasses_def Let_def gridProps_fields refreshEffect_True)
  show ?thesis
    unfolding props_updateView_scenarioHost g'_def [symmetric]
    using before first second passes by simp
qed

lemma renderPasses_cases:
  "(isTableRefresh p \<and> dep \<noteq> Some True \<longrightarrow>
        renderPasses dep p st
          = ([renderFrame p st, renderFrame p initialTableState], initialTableState))
   \<and> (\<not> isTableRefresh p \<or> dep = Some True \<longrightarrow> renderPasses dep p st = ([renderFrame p st], st))"
  by (auto simp: renderPasses_def Let_def refreshEffect_True)

text \<open>
  C8, amended. On the rising edge of the refresh signal, and not while it stays true,
  \<^verbatim>\<open>updateView\<close> resets the sort state (no column, Ascending), the page and the selections
  before it renders the component with the new properties. The component renders a first
  pass of these properties with its hooks as they are, and the refresh effect runs after
  that pass: when the property has changed to true (or is true in the first render) it
  empties the filter mapping and the widths, ends the resize session and closes the popup,
  and a second pass is rendered from the cleared hooks. When the property is as it was in
  the pass before, or is false, there is one pass and the hooks are kept.
\<close>

theorem refresh_two_steps:
  "(raw = Some True \<and> \<not> previousRefreshValue g \<longrightarrow>
      sortState (fst (updateView api raw (g, d))) = (None, Ascending)
      \<and> currentPage (fst (updateView api raw (g, d))) = 1
      \<and> selectedRecordIds (fst (updateView api raw (g, d))) = []
      \<and> selectedRecordObjects (fst (updateView api raw (g, d))) = []
      \<and> selectedLinkRecords (fst (updateView api raw (g, d))) = [])
   \<and> (\<not> (raw = Some True \<and> \<not> previousRefreshValue g) \<longrightarrow>
      sortState (fst (updateView api raw (g, d))) = sortState g
      \<and> currentPage (fst (updateView api raw (g, d))) = currentPage g
      \<and> selectedRecordIds (fst (updateView api raw (g, d))) = selectedRecordIds g
      \<and> selectedRecordObjects (fst (updateView api raw (g, d))) = selectedRecordObjects g
      \<and> selectedLinkRecords (fst (updateView api raw (g, d))) = selectedLinkRecords g)
   \<and> previousRefreshValue (fst (updateView api raw (g, d))) = (raw = Some True)
   \<and> (snd (snd (updateView api raw (g, d))) = Some props \<longrightarrow>
        props = gridProps (raw = Some True) (fst (updateView api raw (g, d))))
   \<and> (isTableRefresh p \<and> dep \<noteq> Some True \<longrightarrow>
        renderPasses dep p st
          = ([renderFrame p st, renderFrame p initialTableState], initialTableState))
   \<and> (\<not> isTableRefresh p \<or> dep = Some True \<longrightarrow> renderPasses dep p st = ([renderFrame p st], st))
   \<and> columnFilters initialTableState = []
   \<and> columnWidths initialTableState = []
   \<and> resizingColumn initialTableState = None
   \<and> openFilterColumn initialTableState = None"
proof -
  have init: "columnFilters initialTableState = []
   \<and> columnWidths initialTableState = []
   \<and> resizingColumn initialTableState = None
   \<and> openFilterColumn initialTableState = None"
    by (simp add: initialTableState_def)
  have upd: "(raw = Some True \<and> \<not> previousRefreshValue g \<longrightarrow>
      sortState (fst (updateView api raw (g, d))) = (None, Ascending)
      \<and> currentPage (fst (updateView api raw (g, d))) = 1
      \<and> selectedRecordIds (fst (updateView api raw (g, d))) = []
      \<and> selectedRecordObjects (fst (updateView api raw (g, d))) = []
      \<and> selectedLinkRecords (fst (updateView api raw (g, d))) = [])
   \<and> (\<not> (raw = Some True \<and> \<not> previousRefreshValue g) \<longrightarrow>
      sortState (fst (updateView api raw (g, d))) = sortState g
      \<and> currentPage (fst (updateView api raw (g, d))) = currentPage g
      \<and> selectedRecordIds (fst (updateView api raw (g, d))) = selectedRecordIds g
      \<and> selectedRecordObjects (fst (updateView api raw (g, d))) = selectedRecordObjects g
      \<and> selectedLinkRecords (fst (updateView api raw (g, d))) = selectedLinkRecords g)"
    by (simp add: sortState_updateView currentPage_updateView selection_updateView)
  have props: "snd (snd (updateView api raw (g, d))) = Some props \<longrightarrow>
        props = gridProps (raw = Some True) (fst (updateView api raw (g, d)))"
  proof
    assume "snd (snd (updateView api raw (g, d))) = Some props"
    then show "props = gridProps (raw = Some True) (fst (updateView api raw (g, d)))"
      by (rule props_updateView)
  qed
  from upd previousRefreshValue_updateView [of api raw g d] props
    renderPasses_cases [of p dep st] init
  show ?thesis by blast
qed

text \<open>
  The call with the signal risen resets the sort state of the sorted control, and the call
  while the signal stays true keeps it; the passes of the component clear the filter
  mapping after the property has changed to true, and keep it while the property stays true.
\<close>

theorem refresh_two_steps_witness:
  "sortState (fst sortedAndFiltered) = (Some ''Status'', Ascending)
   \<and> sortState (fst (updateView hostApi (Some True) (fst sortedAndFiltered, scenarioHost 3 False)))
       = (None, Ascending)
   \<and> sortState (fst (updateView hostApi (Some True)
        (fst sortedAndFiltered\<lparr>previousRefreshValue := True\<rparr>, scenarioHost 3 False)))
       = (Some ''Status'', Ascending)
   \<and> columnFilters (snd sortedAndFiltered) = statusContainsActiv
   \<and> columnFilters (snd (renderPasses (Some False) (gridProps True (fst sortedAndFiltered))
        (snd sortedAndFiltered))) = []
   \<and> columnFilters (snd (renderPasses (Some True) (gridProps True (fst sortedAndFiltered))
        (snd sortedAndFiltered))) = statusContainsActiv"
  using refresh_two_steps [of "Some True" "fst sortedAndFiltered" hostApi "scenarioHost 3 False"
          "gridProps True (fst (updateView hostApi (Some True)
              (fst sortedAndFiltered, scenarioHost 3 False)))"
          "gridProps True (fst sortedAndFiltered)" "Some False" "snd sortedAndFiltered"]
        refresh_two_steps [of "Some True" "fst sortedAndFiltered\<lparr>previousRefreshValue := True\<rparr>"
          hostApi "scenarioHost 3 False"
          "gridProps True (fst sortedAndFiltered)"
          "gridProps True (fst sortedAndFiltered)" "Some True" "snd sortedAndFiltered"]
  by (simp add: sortedAndFiltered_grid sortedAndFiltered_table gridProps_fields sortState_more)


section \<open>The status classifier\<close>


















lemma constructor_inherited: "getStatusStyle ''constructor'' = Inherited ''constructor''"
  by (simp add: getStatusStyle_def trim_def isWhiteSpace_def STATUS_DEFINITIONS_def
      getProperty_def objectPrototypeKeys_def resultOf_def)








end
